theory Spec2Isabelle
  imports Main "HOL-Library.Word"
begin

unbundle bit_operations_syntax

section \<open>The logind session helper of weston (\<^verbatim>\<open>src/logind-util.c\<close>)\<close>

text \<open>
  The helper talks to three parties: the system bus (libdbus), the kernel (ioctl, fcntl,
  stat, signalfd on the VT and device descriptors) and the compositor (the shared
  \<^verbatim>\<open>session_active\<close> flag and its signal). Every call that leaves the helper is
  recorded, in program order, in a list of effects; every answer that comes back from the
  outside (a system call's result, an allocation of libdbus that may fail) is an argument
  of the function that makes the call.
\<close>

subsection \<open>Bus messages and iterators\<close>

datatype dbus_type =
    DBUS_TYPE_INVALID
  | DBUS_TYPE_BOOLEAN
  | DBUS_TYPE_INT32
  | DBUS_TYPE_UINT32
  | DBUS_TYPE_STRING
  | DBUS_TYPE_OBJECT_PATH
  | DBUS_TYPE_UNIX_FD
  | DBUS_TYPE_VARIANT
  | DBUS_TYPE_ARRAY
  | DBUS_TYPE_DICT_ENTRY

datatype dbus_arg =
    DBoolean bool
  | DInt32 "32 word"
  | DUInt32 "32 word"
  | DString string
  | DObjectPath string
  | DUnixFd int
  | DVariant dbus_arg
  | DArray "dbus_arg list"
  | DDictEntry "dbus_arg list"

fun arg_type :: "dbus_arg \<Rightarrow> dbus_type" where
  "arg_type (DBoolean _) = DBUS_TYPE_BOOLEAN"
| "arg_type (DInt32 _) = DBUS_TYPE_INT32"
| "arg_type (DUInt32 _) = DBUS_TYPE_UINT32"
| "arg_type (DString _) = DBUS_TYPE_STRING"
| "arg_type (DObjectPath _) = DBUS_TYPE_OBJECT_PATH"
| "arg_type (DUnixFd _) = DBUS_TYPE_UNIX_FD"
| "arg_type (DVariant _) = DBUS_TYPE_VARIANT"
| "arg_type (DArray _) = DBUS_TYPE_ARRAY"
| "arg_type (DDictEntry _) = DBUS_TYPE_DICT_ENTRY"

datatype dbus_message_type =
    DBUS_MESSAGE_TYPE_METHOD_CALL
  | DBUS_MESSAGE_TYPE_METHOD_RETURN
  | DBUS_MESSAGE_TYPE_ERROR
  | DBUS_MESSAGE_TYPE_SIGNAL

record dbus_message =
  m_type :: dbus_message_type
  m_interface :: string
  m_member :: string
  m_args :: "dbus_arg list"

text \<open>
  A \<^verbatim>\<open>DBusMessageIter\<close> is the list of the fields that are left, the current field
  first. At the end of the fields the type read is \<^verbatim>\<open>DBUS_TYPE_INVALID\<close>;
  \<^verbatim>\<open>dbus_message_iter_next\<close> moves on and answers whether there was a next field.
\<close>

type_synonym dbus_iter = "dbus_arg list"

definition dbus_message_iter_init :: "dbus_message \<Rightarrow> bool \<times> dbus_iter" where
  "dbus_message_iter_init m = (m_args m \<noteq> [], m_args m)"

fun dbus_message_iter_get_arg_type :: "dbus_iter \<Rightarrow> dbus_type" where
  "dbus_message_iter_get_arg_type [] = DBUS_TYPE_INVALID"
| "dbus_message_iter_get_arg_type (a # _) = arg_type a"

fun dbus_message_iter_next :: "dbus_iter \<Rightarrow> bool \<times> dbus_iter" where
  "dbus_message_iter_next [] = (False, [])"
| "dbus_message_iter_next (_ # rest) = (rest \<noteq> [], rest)"

fun dbus_message_iter_recurse :: "dbus_iter \<Rightarrow> dbus_iter" where
  "dbus_message_iter_recurse (DVariant v # _) = [v]"
| "dbus_message_iter_recurse (DArray xs # _) = xs"
| "dbus_message_iter_recurse (DDictEntry xs # _) = xs"
| "dbus_message_iter_recurse _ = []"

text \<open>The two readings of \<^verbatim>\<open>dbus_message_iter_get_basic\<close> that the helper makes, each
  after it has checked the type of the field.\<close>

fun get_basic_string :: "dbus_iter \<Rightarrow> string" where
  "get_basic_string (DString s # _) = s"
| "get_basic_string _ = []"

fun get_basic_boolean :: "dbus_iter \<Rightarrow> bool" where
  "get_basic_boolean (DBoolean b # _) = b"
| "get_basic_boolean _ = False"

definition dbus_message_is_signal :: "dbus_message \<Rightarrow> string \<Rightarrow> string \<Rightarrow> bool" where
  "dbus_message_is_signal m iface name \<longleftrightarrow>
     m_type m = DBUS_MESSAGE_TYPE_SIGNAL \<and> m_interface m = iface \<and> m_member m = name"

subsection \<open>Kernel requests on the VT\<close>

text \<open>The values of \<^verbatim>\<open>linux/kd.h\<close>, \<^verbatim>\<open>linux/vt.h\<close>, \<^verbatim>\<open>linux/major.h\<close>,
  \<^verbatim>\<open>fcntl.h\<close> and \<^verbatim>\<open>errno.h\<close> that the file uses.\<close>

definition KD_TEXT :: int where "KD_TEXT = 0"
definition KD_GRAPHICS :: int where "KD_GRAPHICS = 1"
definition K_UNICODE :: int where "K_UNICODE = 3"
definition K_OFF :: int where "K_OFF = 4"
definition VT_AUTO :: int where "VT_AUTO = 0"
definition VT_PROCESS :: int where "VT_PROCESS = 1"
definition VT_ACKACQ :: int where "VT_ACKACQ = 2"
definition TTY_MAJOR :: "32 word" where "TTY_MAJOR = 4"
definition DRM_MAJOR :: "32 word" where "DRM_MAJOR = 226"
definition O_NONBLOCK :: int where "O_NONBLOCK = 2048"
definition EIO :: int where "EIO = 5"
definition ENOMEM :: int where "ENOMEM = 12"
definition ENODEV :: int where "ENODEV = 19"
definition EINVAL :: int where "EINVAL = 22"

record vt_mode =
  mode :: int
  relsig :: int
  acqsig :: int

datatype vt_request =
    KDGKBMODE
  | KDSKBMODE int
  | KDSKBMUTE int
  | KDSETMODE int
  | VT_SETMODE vt_mode
  | VT_ACTIVATE int
  | VT_RELDISP int

subsection \<open>Effects and the helper's state\<close>

datatype effect =
    Bus_send string string "dbus_arg list"
      \<comment> \<open>\<^verbatim>\<open>dbus_connection_send\<close> of a method call: object path, member, arguments\<close>
  | Bus_send_with_reply string string "dbus_arg list" nat
      \<comment> \<open>\<^verbatim>\<open>dbus_connection_send_with_reply\<close>, with the pending call it created\<close>
  | Bus_call string string "dbus_arg list"
      \<comment> \<open>\<^verbatim>\<open>dbus_connection_send_with_reply_and_block\<close>\<close>
  | Pending_cancel nat
  | Pending_unref nat
  | Session_signal bool
      \<comment> \<open>\<^verbatim>\<open>wl_signal_emit\<close> on the compositor's session signal, with the flag it shows\<close>
  | Log string
  | Open_tty "32 word"
      \<comment> \<open>\<^verbatim>\<open>open\<close> of \<^verbatim>\<open>/dev/tty%u\<close> for this VT number\<close>
  | Ioctl int vt_request
  | Fcntl_getfl int
  | Fcntl_setfl int int
  | Close int
  | Sigprocmask_block "int list"
  | Event_source_remove int
  | Exit int

text \<open>
  \<^verbatim>\<open>struct weston_logind\<close>, with what it points to and what surrounds it:
  \<open>session_active\<close> is \<^verbatim>\<open>wl->compositor->session_active\<close>; \<open>bus_pending\<close> are the
  pending calls of the connection that are still waiting for their reply; \<open>next_pending\<close>
  names the pending call that libdbus creates next; \<open>effects\<close> is the trace.
\<close>

record weston_logind =
  sync_drm :: bool
  sid :: string
  spath :: string
  vtnr :: "32 word"
  vt :: int
  kb_mode :: int
  sfd :: int
  sfd_source :: "int option"
  pending_active :: "nat option"
  session_active :: bool
  bus_pending :: "nat list"
  next_pending :: nat
  errno :: int
  exited :: bool
  effects :: "effect list"

definition emit :: "effect \<Rightarrow> weston_logind \<Rightarrow> weston_logind" where
  "emit e wl = wl\<lparr>effects := effects wl @ [e]\<rparr>"

definition weston_log :: "string \<Rightarrow> weston_logind \<Rightarrow> weston_logind" where
  "weston_log s wl = emit (Log s) wl"

definition ioctl :: "vt_request \<Rightarrow> weston_logind \<Rightarrow> weston_logind" where
  "ioctl req wl = emit (Ioctl (vt wl) req) wl"

text \<open>Building a method call can fail twice for want of memory:
  in \<^verbatim>\<open>dbus_message_new_method_call\<close> and in \<^verbatim>\<open>dbus_message_append_args\<close>.\<close>

record dbus_alloc =
  new_ok :: bool
  append_ok :: bool

subsection \<open>Device arbiter: the fire-and-forget calls\<close>

definition weston_logind_release_device ::
  "dbus_alloc \<Rightarrow> 32 word \<Rightarrow> 32 word \<Rightarrow> weston_logind \<Rightarrow> weston_logind" where
  "weston_logind_release_device a major minor wl =
     (if new_ok a then
        (if append_ok a
         then emit (Bus_send (spath wl) ''ReleaseDevice'' [DUInt32 major, DUInt32 minor]) wl
         else wl)
      else wl)"

definition weston_logind_pause_device_complete ::
  "dbus_alloc \<Rightarrow> 32 word \<Rightarrow> 32 word \<Rightarrow> weston_logind \<Rightarrow> weston_logind" where
  "weston_logind_pause_device_complete a major minor wl =
     (if new_ok a then
        (if append_ok a
         then emit (Bus_send (spath wl) ''PauseDeviceComplete'' [DUInt32 major, DUInt32 minor]) wl
         else wl)
      else wl)"

subsection \<open>The active flag\<close>

text \<open>Modelled from the spec: the type of \<^verbatim>\<open>session_active\<close> in
  \<^verbatim>\<open>struct weston_compositor\<close> (declared in \<^verbatim>\<open>compositor.h\<close>) is "a single boolean".\<close>

definition weston_logind_set_active :: "bool \<Rightarrow> weston_logind \<Rightarrow> weston_logind" where
  "weston_logind_set_active active wl =
     (if (\<not> session_active wl) = (\<not> active) then wl
      else emit (Session_signal active) (wl\<lparr>session_active := active\<rparr>))"

definition parse_active :: "dbus_iter \<Rightarrow> weston_logind \<Rightarrow> weston_logind" where
  "parse_active iter wl =
     (if dbus_message_iter_get_arg_type iter \<noteq> DBUS_TYPE_VARIANT then wl
      else let sub = dbus_message_iter_recurse iter in
        if dbus_message_iter_get_arg_type sub \<noteq> DBUS_TYPE_BOOLEAN then wl
        else let b = get_basic_boolean sub in
          if \<not> sync_drm wl \<or> \<not> b then weston_logind_set_active b wl else wl)"

subsection \<open>The pending query\<close>

definition dbus_pending_call_cancel :: "nat \<Rightarrow> weston_logind \<Rightarrow> weston_logind" where
  "dbus_pending_call_cancel p wl =
     emit (Pending_cancel p) (wl\<lparr>bus_pending := removeAll p (bus_pending wl)\<rparr>)"

definition dbus_pending_call_unref :: "nat \<Rightarrow> weston_logind \<Rightarrow> weston_logind" where
  "dbus_pending_call_unref p wl = emit (Pending_unref p) wl"

text \<open>The reply of a pending call has arrived (\<open>None\<close>: there is no reply to steal).
  A null \<^verbatim>\<open>wl->pending_active\<close> is refused by \<^verbatim>\<open>dbus_pending_call_unref\<close>.\<close>

definition get_active_cb :: "dbus_message option \<Rightarrow> weston_logind \<Rightarrow> weston_logind" where
  "get_active_cb reply wl =
     (let wl1 = (case pending_active wl of
                   None \<Rightarrow> wl
                 | Some p \<Rightarrow> dbus_pending_call_unref p wl);
          wl2 = wl1\<lparr>pending_active := None\<rparr>
      in case reply of
           None \<Rightarrow> wl2
         | Some m \<Rightarrow>
             (let (ok, iter) = dbus_message_iter_init m in
              if m_type m = DBUS_MESSAGE_TYPE_METHOD_RETURN \<and> ok
              then parse_active iter wl2 else wl2))"

record get_active_env =
  ga_alloc :: dbus_alloc
  ga_send_ok :: bool
  ga_notify_ok :: bool

definition weston_logind_get_active :: "get_active_env \<Rightarrow> weston_logind \<Rightarrow> weston_logind" where
  "weston_logind_get_active env wl =
     (if \<not> new_ok (ga_alloc env) then wl
      else if \<not> append_ok (ga_alloc env) then wl
      else if \<not> ga_send_ok env then wl
      else
        let pending = next_pending wl;
            wl1 = emit (Bus_send_with_reply (spath wl) ''Get''
                          [DString ''org.freedesktop.login1.Session'', DString ''Active''] pending)
                    (wl\<lparr>next_pending := Suc pending,
                        bus_pending := pending # bus_pending wl\<rparr>)
        in if \<not> ga_notify_ok env
           then dbus_pending_call_unref pending (dbus_pending_call_cancel pending wl1)
           else
             let wl2 = (case pending_active wl1 of
                          None \<Rightarrow> wl1
                        | Some old \<Rightarrow>
                            dbus_pending_call_unref old (dbus_pending_call_cancel old wl1))
             in wl2\<lparr>pending_active := Some pending\<rparr>)"

subsection \<open>Push path: \<^verbatim>\<open>PropertiesChanged\<close>\<close>

datatype changed_result = Changed_error | Changed_active dbus_iter | Changed_done

text \<open>The first loop of \<^verbatim>\<open>property_changed\<close>, over the dictionary of changed
  properties: it leaves through \<^verbatim>\<open>goto error\<close>, through the \<^verbatim>\<open>return\<close> after
  \<^verbatim>\<open>parse_active\<close> (with the entry's iterator at the value), or at the first field
  that is no dictionary entry.\<close>

fun changed_loop :: "dbus_iter \<Rightarrow> changed_result" where
  "changed_loop [] = Changed_done"
| "changed_loop (a # sub) =
     (if dbus_message_iter_get_arg_type (a # sub) \<noteq> DBUS_TYPE_DICT_ENTRY then Changed_done
      else let entry = dbus_message_iter_recurse (a # sub) in
        if dbus_message_iter_get_arg_type entry \<noteq> DBUS_TYPE_STRING then Changed_error
        else let name = get_basic_string entry;
                 (more, entry') = dbus_message_iter_next entry
          in if \<not> more then Changed_error
             else if name = ''Active'' then Changed_active entry'
             else changed_loop sub)"

text \<open>The second loop, over the names of the invalidated properties: is
  \<^verbatim>\<open>Active\<close> among the leading strings?\<close>

fun invalidated_loop :: "dbus_iter \<Rightarrow> bool" where
  "invalidated_loop [] = False"
| "invalidated_loop (a # sub) =
     (if dbus_message_iter_get_arg_type (a # sub) \<noteq> DBUS_TYPE_STRING then False
      else if get_basic_string (a # sub) = ''Active'' then True
      else invalidated_loop sub)"

definition property_changed_error :: "weston_logind \<Rightarrow> weston_logind" where
  "property_changed_error wl =
     weston_log ''logind: cannot parse PropertiesChanged dbus signal'' wl"

definition property_changed ::
  "get_active_env \<Rightarrow> dbus_message \<Rightarrow> weston_logind \<Rightarrow> weston_logind" where
  "property_changed env m wl =
     (let (ok, iter) = dbus_message_iter_init m in
      if \<not> ok \<or> dbus_message_iter_get_arg_type iter \<noteq> DBUS_TYPE_STRING
      then property_changed_error wl
      else let (ok2, iter2) = dbus_message_iter_next iter in
        if \<not> ok2 \<or> dbus_message_iter_get_arg_type iter2 \<noteq> DBUS_TYPE_ARRAY
        then property_changed_error wl
        else case changed_loop (dbus_message_iter_recurse iter2) of
               Changed_error \<Rightarrow> property_changed_error wl
             | Changed_active entry \<Rightarrow> parse_active entry wl
             | Changed_done \<Rightarrow>
                 (let (ok3, iter3) = dbus_message_iter_next iter2 in
                  if \<not> ok3 \<or> dbus_message_iter_get_arg_type iter3 \<noteq> DBUS_TYPE_ARRAY
                  then property_changed_error wl
                  else if invalidated_loop (dbus_message_iter_recurse iter3)
                  then weston_logind_get_active env wl
                  else wl))"

subsection \<open>Pause and resume of devices\<close>

text \<open>\<^verbatim>\<open>dbus_message_get_args\<close> reads the leading arguments and checks their types;
  arguments after the ones asked for are not looked at.\<close>

definition device_paused :: "dbus_alloc \<Rightarrow> dbus_message \<Rightarrow> weston_logind \<Rightarrow> weston_logind" where
  "device_paused a m wl =
     (case m_args m of
        DUInt32 major # DUInt32 minor # DString type # _ \<Rightarrow>
          (let wl1 = (if type = ''pause''
                      then weston_logind_pause_device_complete a major minor wl
                      else wl)
           in if sync_drm wl1 \<and> major = DRM_MAJOR
              then weston_logind_set_active False wl1 else wl1)
      | _ \<Rightarrow> weston_log ''logind: cannot parse PauseDevice dbus signal'' wl)"

definition device_resumed :: "dbus_message \<Rightarrow> weston_logind \<Rightarrow> weston_logind" where
  "device_resumed m wl =
     (case m_args m of
        DUInt32 major # _ \<Rightarrow>
          (if sync_drm wl \<and> major = DRM_MAJOR
           then weston_logind_set_active True wl else wl)
      | _ \<Rightarrow> weston_log ''logind: cannot parse ResumeDevice dbus signal'' wl)"

subsection \<open>Restoring the VT, and the two fatal signals\<close>

definition weston_logind_restore :: "weston_logind \<Rightarrow> weston_logind" where
  "weston_logind_restore wl =
     ioctl (VT_SETMODE \<lparr>mode = VT_AUTO, relsig = 0, acqsig = 0\<rparr>)
       (ioctl (KDSKBMODE (kb_mode wl))
         (ioctl (KDSKBMUTE 0)
           (ioctl (KDSETMODE KD_TEXT) wl)))"

definition exit_process :: "int \<Rightarrow> weston_logind \<Rightarrow> weston_logind" where
  "exit_process code wl = (emit (Exit code) wl)\<lparr>exited := True\<rparr>"

definition disconnected_dbus :: "weston_logind \<Rightarrow> weston_logind" where
  "disconnected_dbus wl =
     exit_process (- 1)
       (weston_logind_restore
         (weston_log ''logind: dbus connection lost, exiting..'' wl))"

definition session_removed :: "dbus_message \<Rightarrow> weston_logind \<Rightarrow> weston_logind" where
  "session_removed m wl =
     (case m_args m of
        DString name # DObjectPath obj # _ \<Rightarrow>
          (if name = sid wl
           then exit_process (- 1)
                  (weston_logind_restore
                    (weston_log ''logind: our session got closed, exiting..'' wl))
           else wl)
      | _ \<Rightarrow> weston_log ''logind: cannot parse SessionRemoved dbus signal'' wl)"

record filter_env =
  fe_get_active :: get_active_env
  fe_pause :: dbus_alloc

definition filter_dbus :: "filter_env \<Rightarrow> dbus_message \<Rightarrow> weston_logind \<Rightarrow> weston_logind" where
  "filter_dbus env m wl =
     (if dbus_message_is_signal m ''org.freedesktop.DBus.Local'' ''Disconnected''
      then disconnected_dbus wl
      else if dbus_message_is_signal m ''org.freedesktop.login1.Manager'' ''SessionRemoved''
      then session_removed m wl
      else if dbus_message_is_signal m ''org.freedesktop.DBus.Properties'' ''PropertiesChanged''
      then property_changed (fe_get_active env) m wl
      else if dbus_message_is_signal m ''org.freedesktop.login1.Session'' ''PauseDevice''
      then device_paused (fe_pause env) m wl
      else if dbus_message_is_signal m ''org.freedesktop.login1.Session'' ''ResumeDevice''
      then device_resumed m wl
      else wl)"

subsection \<open>VT switch signals\<close>

text \<open>\<open>rd\<close> is what \<^verbatim>\<open>read\<close> on the signal descriptor gave: \<open>Some signo\<close> for a whole
  \<^verbatim>\<open>signalfd_siginfo\<close>, \<open>None\<close> otherwise. \<^verbatim>\<open>SIGRTMIN\<close> is known at run time only.\<close>

definition signal_event :: "int \<Rightarrow> 32 word option \<Rightarrow> weston_logind \<Rightarrow> int \<times> weston_logind" where
  "signal_event sigrtmin rd wl =
     (case rd of
        None \<Rightarrow> (0, weston_log ''logind: cannot read signalfd: %m'' wl)
      | Some ssi_signo \<Rightarrow>
          (if ssi_signo = word_of_int sigrtmin then (0, ioctl (VT_RELDISP 1) wl)
           else if ssi_signo = word_of_int sigrtmin + 1 then (0, ioctl (VT_RELDISP VT_ACKACQ) wl)
           else (0, wl)))"

subsection \<open>Opening and closing a device\<close>

record stat =
  st_is_chr :: bool
  st_major :: "32 word"
  st_minor :: "32 word"

record take_env =
  td_alloc :: dbus_alloc
  td_reply :: "dbus_message option"

text \<open>The result is the function's \<^verbatim>\<open>int\<close> (the descriptor, or a negated error
  number), with the value for \<^verbatim>\<open>*paused_out\<close> (the one caller passes a null pointer and
  drops it). \<open>td_reply\<close> is the reply of the blocking call, \<open>None\<close> when libdbus returns
  no reply.\<close>

definition weston_logind_take_device ::
  "take_env \<Rightarrow> 32 word \<Rightarrow> 32 word \<Rightarrow> weston_logind \<Rightarrow> int \<times> bool option \<times> weston_logind" where
  "weston_logind_take_device env major minor wl =
     (if \<not> new_ok (td_alloc env) then (- ENOMEM, None, wl)
      else if \<not> append_ok (td_alloc env) then (- ENOMEM, None, wl)
      else
        let wl1 = emit (Bus_call (spath wl) ''TakeDevice'' [DUInt32 major, DUInt32 minor]) wl
        in case td_reply env of
             None \<Rightarrow> (- ENODEV, None, wl1)
           | Some reply \<Rightarrow>
               (case m_args reply of
                  DUnixFd fd # DBoolean paused # _ \<Rightarrow> (fd, Some paused, wl1)
                | _ \<Rightarrow> (- ENODEV, None, wl1)))"

text \<open>The answers of the system calls: \<open>Inl e\<close> is a failure that leaves \<open>e\<close> in
  \<^verbatim>\<open>errno\<close>; for \<^verbatim>\<open>F_SETFL\<close>, \<open>Some e\<close> is the failure.\<close>

record open_env =
  oe_stat :: "int + stat"
  oe_take :: take_env
  oe_getfl :: "int + int"
  oe_setfl :: "int option"
  oe_release :: dbus_alloc

text \<open>The label \<^verbatim>\<open>err_close\<close> of \<^verbatim>\<open>weston_logind_open\<close>.\<close>

definition open_err_close ::
  "dbus_alloc \<Rightarrow> int \<Rightarrow> stat \<Rightarrow> int \<Rightarrow> weston_logind \<Rightarrow> int \<times> weston_logind" where
  "open_err_close a fd st r wl =
     (let wl1 = emit (Close fd) wl;
          wl2 = weston_logind_release_device a (st_major st) (st_minor st) wl1
      in (- 1, wl2\<lparr>errno := - r\<rparr>))"

definition weston_logind_open ::
  "open_env \<Rightarrow> string \<Rightarrow> int \<Rightarrow> weston_logind \<Rightarrow> int \<times> weston_logind" where
  "weston_logind_open env path flags wl =
     (case oe_stat env of
        Inl e \<Rightarrow> (- 1, wl\<lparr>errno := e\<rparr>)
      | Inr st \<Rightarrow>
          if \<not> st_is_chr st then (- 1, wl\<lparr>errno := ENODEV\<rparr>)
          else
            let (fd, paused, wl1) =
                  weston_logind_take_device (oe_take env) (st_major st) (st_minor st) wl
            in if fd < 0 then (fd, wl1)
               else
                 let wl2 = emit (Fcntl_getfl fd) wl1
                 in (case oe_getfl env of
                       Inl e \<Rightarrow> open_err_close (oe_release env) fd st (- e) (wl2\<lparr>errno := e\<rparr>)
                     | Inr fl \<Rightarrow>
                         (let fl' = (if (flags AND O_NONBLOCK) \<noteq> 0 then (fl OR O_NONBLOCK) else fl);
                              wl3 = emit (Fcntl_setfl fd fl') wl2
                          in case oe_setfl env of
                               Some e \<Rightarrow>
                                 open_err_close (oe_release env) fd st (- e) (wl3\<lparr>errno := e\<rparr>)
                             | None \<Rightarrow> (fd, wl3))))"

record close_env =
  ce_fstat :: "int + stat"
  ce_release :: dbus_alloc

definition weston_logind_close :: "close_env \<Rightarrow> int \<Rightarrow> weston_logind \<Rightarrow> weston_logind" where
  "weston_logind_close env fd wl =
     (case ce_fstat env of
        Inl e \<Rightarrow> weston_log ''logind: cannot fstat fd: %m'' (wl\<lparr>errno := e\<rparr>)
      | Inr st \<Rightarrow>
          if \<not> st_is_chr st then weston_log ''logind: invalid device passed'' wl
          else weston_logind_release_device (ce_release env) (st_major st) (st_minor st) wl)"

definition weston_logind_activate_vt :: "int option \<Rightarrow> int \<Rightarrow> weston_logind \<Rightarrow> int \<times> weston_logind" where
  "weston_logind_activate_vt res n wl =
     (let wl1 = ioctl (VT_ACTIVATE n) wl
      in case res of Some e \<Rightarrow> (- 1, wl1\<lparr>errno := e\<rparr>) | None \<Rightarrow> (0, wl1))"

subsection \<open>Setting up the VT\<close>

text \<open>The answers of the kernel and of the event loop during
  \<^verbatim>\<open>weston_logind_setup_vt\<close>, and the two run-time values \<^verbatim>\<open>SIGRTMIN\<close> and
  \<^verbatim>\<open>SIGRTMAX\<close>. \<open>ve_fstat = None\<close> is \<^verbatim>\<open>fstat\<close> returning \<open>-1\<close>; for the requests
  that return nothing, \<open>Some e\<close> is the failure with \<^verbatim>\<open>errno\<close> \<open>e\<close>.\<close>

record vt_env =
  ve_open :: "int + int"
  ve_fstat :: "stat option"
  ve_kdgkbmode :: "int + int"
  ve_kdskbmute :: "int option"
  ve_kdskbmode :: "int option"
  ve_kdsetmode :: "int option"
  ve_sigrtmin :: int
  ve_sigrtmax :: int
  ve_signalfd :: "int + int"
  ve_add_fd :: "int + int"
  ve_vt_setmode :: "int option"

text \<open>The labels at the end of \<^verbatim>\<open>weston_logind_setup_vt\<close>; each falls through to
  the next.\<close>

definition err_close :: "int \<Rightarrow> weston_logind \<Rightarrow> int \<times> weston_logind" where
  "err_close r wl = (r, emit (Close (vt wl)) wl)"

definition err_kbmode :: "int \<Rightarrow> weston_logind \<Rightarrow> int \<times> weston_logind" where
  "err_kbmode r wl = err_close r (ioctl (KDSKBMODE (kb_mode wl)) (ioctl (KDSKBMUTE 0) wl))"

definition err_mode :: "int \<Rightarrow> weston_logind \<Rightarrow> int \<times> weston_logind" where
  "err_mode r wl = err_kbmode r (ioctl (KDSETMODE KD_TEXT) wl)"

definition err_sfd :: "int \<Rightarrow> weston_logind \<Rightarrow> int \<times> weston_logind" where
  "err_sfd r wl = err_mode r (emit (Close (sfd wl)) wl)"

definition err_sfd_source :: "int \<Rightarrow> int \<Rightarrow> weston_logind \<Rightarrow> int \<times> weston_logind" where
  "err_sfd_source src r wl = err_sfd r (emit (Event_source_remove src) wl)"

text \<open>From the test of the real-time signals to the end.\<close>

definition setup_vt_signals :: "vt_env \<Rightarrow> weston_logind \<Rightarrow> int \<times> weston_logind" where
  "setup_vt_signals env wl =
     (if ve_sigrtmin env + 1 > ve_sigrtmax env
      then (- EINVAL, weston_log ''logind: not enough RT signals available: %u-%u'' wl)
      else
        let wl1 = emit (Sigprocmask_block [ve_sigrtmin env, ve_sigrtmin env + 1]) wl
        in case ve_signalfd env of
             Inl e \<Rightarrow>
               err_mode (- e)
                 (weston_log ''logind: cannot create signalfd: %m'' (wl1\<lparr>sfd := - 1, errno := e\<rparr>))
           | Inr s \<Rightarrow>
               (let wl2 = wl1\<lparr>sfd := s\<rparr>
                in case ve_add_fd env of
                     Inl e \<Rightarrow>
                       err_sfd (- e)
                         (weston_log ''logind: cannot create signalfd source: %m''
                            (wl2\<lparr>sfd_source := None, errno := e\<rparr>))
                   | Inr src \<Rightarrow>
                       (let wl3 = ioctl (VT_SETMODE \<lparr>mode = VT_PROCESS,
                                                    relsig = ve_sigrtmin env,
                                                    acqsig = ve_sigrtmin env + 1\<rparr>)
                                    (wl2\<lparr>sfd_source := Some src\<rparr>)
                        in case ve_vt_setmode env of
                             Some e \<Rightarrow>
                               err_sfd_source src (- e)
                                 (weston_log ''logind: cannot take over VT: %m'' (wl3\<lparr>errno := e\<rparr>))
                           | None \<Rightarrow> (0, weston_log ''logind: using VT %s'' wl3))))"

text \<open>From the switch to graphics mode on.\<close>

definition setup_vt_graphics :: "vt_env \<Rightarrow> weston_logind \<Rightarrow> int \<times> weston_logind" where
  "setup_vt_graphics env wl =
     (let wl1 = ioctl (KDSETMODE KD_GRAPHICS) wl
      in case ve_kdsetmode env of
           Some e \<Rightarrow>
             err_kbmode (- e)
               (weston_log ''logind: cannot set KD_GRAPHICS mode on %s: %m'' (wl1\<lparr>errno := e\<rparr>))
         | None \<Rightarrow> setup_vt_signals env wl1)"

text \<open>From the muting of the keyboard on: \<^verbatim>\<open>KDSKBMODE\<close> is tried only when
  \<^verbatim>\<open>KDSKBMUTE\<close> has failed, and setup goes on unless both fail.\<close>

definition setup_vt_mute :: "vt_env \<Rightarrow> weston_logind \<Rightarrow> int \<times> weston_logind" where
  "setup_vt_mute env wl =
     (let wl1 = ioctl (KDSKBMUTE 1) wl
      in case ve_kdskbmute env of
           None \<Rightarrow> setup_vt_graphics env wl1
         | Some e1 \<Rightarrow>
             (let wl2 = ioctl (KDSKBMODE K_OFF) (wl1\<lparr>errno := e1\<rparr>)
              in case ve_kdskbmode env of
                   Some e \<Rightarrow>
                     err_close (- e)
                       (weston_log ''logind: cannot set K_OFF KB-mode on %s: %m''
                          (wl2\<lparr>errno := e\<rparr>))
                 | None \<Rightarrow> setup_vt_graphics env wl2))"

definition weston_logind_setup_vt :: "vt_env \<Rightarrow> weston_logind \<Rightarrow> int \<times> weston_logind" where
  "weston_logind_setup_vt env wl =
     (let wl0 = emit (Open_tty (vtnr wl)) wl
      in case ve_open env of
           Inl e \<Rightarrow> (- e, weston_log ''logind: cannot open VT %s: %m'' (wl0\<lparr>vt := - 1, errno := e\<rparr>))
         | Inr fd \<Rightarrow>
             (let wl1 = wl0\<lparr>vt := fd\<rparr>
              in if (case ve_fstat env of
                       None \<Rightarrow> True
                     | Some st \<Rightarrow> st_major st \<noteq> TTY_MAJOR \<or> st_minor st \<le> 0 \<or> st_minor st \<ge> 64)
                 then err_close (- EINVAL)
                        (weston_log ''logind: TTY %s is no virtual terminal'' wl1)
                 else
                   let wl2 = ioctl KDGKBMODE wl1;
                       wl3 = (case ve_kdgkbmode env of
                                Inl e \<Rightarrow>
                                  (weston_log ''logind: cannot read keyboard mode on %s: %m''
                                     (wl2\<lparr>errno := e\<rparr>))\<lparr>kb_mode := K_UNICODE\<rparr>
                              | Inr k \<Rightarrow>
                                  if k = K_OFF then wl2\<lparr>kb_mode := K_UNICODE\<rparr>
                                  else wl2\<lparr>kb_mode := k\<rparr>)
                   in setup_vt_mute env wl3))"

subsection \<open>The event loop\<close>

text \<open>What the event loop hands to the helper: a message of the bus for
  \<^verbatim>\<open>filter_dbus\<close>, and the completion of a pending call for \<^verbatim>\<open>get_active_cb\<close>.
  libdbus notifies a pending call once, and not after it was cancelled. A process that
  has exited handles nothing more.\<close>

datatype event =
    Bus_message filter_env dbus_message
  | Pending_reply nat "dbus_message option"

fun handle_event :: "event \<Rightarrow> weston_logind \<Rightarrow> weston_logind" where
  "handle_event (Bus_message env m) wl = filter_dbus env m wl"
| "handle_event (Pending_reply p reply) wl =
     (if p \<in> set (bus_pending wl)
      then get_active_cb reply (wl\<lparr>bus_pending := removeAll p (bus_pending wl)\<rparr>)
      else wl)"

fun run :: "event list \<Rightarrow> weston_logind \<Rightarrow> weston_logind" where
  "run [] wl = wl"
| "run (e # es) wl = (if exited wl then wl else run es (handle_event e wl))"

subsection \<open>Vocabulary of the properties\<close>

text \<open>The well-formed messages of the external interface:
  \<^verbatim>\<open>PropertiesChanged(interface, changed: map<string,variant>, invalidated: list<string>)\<close>,
  the reply \<^verbatim>\<open>variant(bool)\<close> of \<^verbatim>\<open>Properties.Get\<close>, and
  \<^verbatim>\<open>PauseDevice(major, minor, kind)\<close> and \<^verbatim>\<open>ResumeDevice(major, minor, fd)\<close>.\<close>

definition changed_entry :: "string \<times> dbus_arg \<Rightarrow> dbus_arg" where
  "changed_entry kv = DDictEntry [DString (fst kv), DVariant (snd kv)]"

definition properties_changed ::
  "string \<Rightarrow> (string \<times> dbus_arg) list \<Rightarrow> string list \<Rightarrow> dbus_message" where
  "properties_changed iface changed invalidated =
     \<lparr>m_type = DBUS_MESSAGE_TYPE_SIGNAL,
      m_interface = ''org.freedesktop.DBus.Properties'',
      m_member = ''PropertiesChanged'',
      m_args = [DString iface, DArray (map changed_entry changed),
                DArray (map DString invalidated)]\<rparr>"

definition active_reply :: "bool \<Rightarrow> dbus_message" where
  "active_reply b =
     \<lparr>m_type = DBUS_MESSAGE_TYPE_METHOD_RETURN, m_interface = [], m_member = [],
      m_args = [DVariant (DBoolean b)]\<rparr>"

definition pause_device :: "32 word \<Rightarrow> 32 word \<Rightarrow> string \<Rightarrow> dbus_message" where
  "pause_device major minor kind =
     \<lparr>m_type = DBUS_MESSAGE_TYPE_SIGNAL,
      m_interface = ''org.freedesktop.login1.Session'',
      m_member = ''PauseDevice'',
      m_args = [DUInt32 major, DUInt32 minor, DString kind]\<rparr>"

definition resume_device :: "32 word \<Rightarrow> 32 word \<Rightarrow> int \<Rightarrow> dbus_message" where
  "resume_device major minor fd =
     \<lparr>m_type = DBUS_MESSAGE_TYPE_SIGNAL,
      m_interface = ''org.freedesktop.login1.Session'',
      m_member = ''ResumeDevice'',
      m_args = [DUInt32 major, DUInt32 minor, DUnixFd fd]\<rparr>"

text \<open>Is the message a resume notification for this major?\<close>

definition is_resume_of :: "32 word \<Rightarrow> dbus_message \<Rightarrow> bool" where
  "is_resume_of major m \<longleftrightarrow>
     dbus_message_is_signal m ''org.freedesktop.login1.Session'' ''ResumeDevice'' \<and>
     (case m_args m of DUInt32 j # _ \<Rightarrow> j = major | _ \<Rightarrow> False)"

text \<open>Is the message a pause notification for this major?\<close>

definition is_pause_of :: "32 word \<Rightarrow> dbus_message \<Rightarrow> bool" where
  "is_pause_of major m \<longleftrightarrow>
     dbus_message_is_signal m ''org.freedesktop.login1.Session'' ''PauseDevice'' \<and>
     (case m_args m of DUInt32 j # DUInt32 _ # DString _ # _ \<Rightarrow> j = major | _ \<Rightarrow> False)"

text \<open>The session-active value that a message delivers, if it delivers one: a
  \<^verbatim>\<open>PropertiesChanged\<close> signal whose dictionary reaches a boolean \<^verbatim>\<open>Active\<close>, and a
  method return that starts with a boolean variant.\<close>

definition push_value :: "dbus_message \<Rightarrow> bool option" where
  "push_value m =
     (if \<not> dbus_message_is_signal m ''org.freedesktop.DBus.Properties'' ''PropertiesChanged''
      then None
      else case m_args m of
             DString _ # DArray changed # _ \<Rightarrow>
               (case changed_loop changed of
                  Changed_active (DVariant (DBoolean b) # _) \<Rightarrow> Some b
                | _ \<Rightarrow> None)
           | _ \<Rightarrow> None)"

definition reply_value :: "dbus_message option \<Rightarrow> bool option" where
  "reply_value reply =
     (case reply of
        None \<Rightarrow> None
      | Some m \<Rightarrow>
          if m_type m \<noteq> DBUS_MESSAGE_TYPE_METHOD_RETURN then None
          else case m_args m of DVariant (DBoolean b) # _ \<Rightarrow> Some b | _ \<Rightarrow> None)"

text \<open>All memory that libdbus is asked for is there.\<close>

definition alloc_ok :: "dbus_alloc \<Rightarrow> bool" where
  "alloc_ok a \<longleftrightarrow> new_ok a \<and> append_ok a"

definition no_oom :: dbus_alloc where
  "no_oom = \<lparr>new_ok = True, append_ok = True\<rparr>"

text \<open>The query gets as far as registering its pending call.\<close>

definition registers :: "get_active_env \<Rightarrow> bool" where
  "registers env \<longleftrightarrow> alloc_ok (ga_alloc env) \<and> ga_send_ok env \<and> ga_notify_ok env"

definition query_ok :: get_active_env where
  "query_ok = \<lparr>ga_alloc = no_oom, ga_send_ok = True, ga_notify_ok = True\<rparr>"

definition filter_ok :: filter_env where
  "filter_ok = \<lparr>fe_get_active = query_ok, fe_pause = no_oom\<rparr>"

text \<open>The pending calls of the connection are the one the helper remembers, and the
  names that libdbus hands out are new.\<close>

definition pending_inv :: "weston_logind \<Rightarrow> bool" where
  "pending_inv wl \<longleftrightarrow>
     bus_pending wl = (case pending_active wl of None \<Rightarrow> [] | Some p \<Rightarrow> [p]) \<and>
     list_all (\<lambda>p. p < next_pending wl) (bus_pending wl)"

text \<open>A sequence of writes of the flag, and the change notifications in a trace.\<close>

fun set_active_all :: "bool list \<Rightarrow> weston_logind \<Rightarrow> weston_logind" where
  "set_active_all [] wl = wl"
| "set_active_all (v # vs) wl = set_active_all vs (weston_logind_set_active v wl)"

fun is_session_signal :: "effect \<Rightarrow> bool" where
  "is_session_signal (Session_signal _) = True"
| "is_session_signal _ = False"

definition notifications :: "weston_logind \<Rightarrow> effect list" where
  "notifications wl = filter is_session_signal (effects wl)"

text \<open>The logical transitions of a sequence of writes, as the specification counts
  them: the writes whose value differs from the state they find.\<close>

fun transitions :: "bool \<Rightarrow> bool list \<Rightarrow> bool list" where
  "transitions cur [] = []"
| "transitions cur (v # vs) = (if v \<noteq> cur then v # transitions v vs else transitions cur vs)"

text \<open>A session after \<^verbatim>\<open>weston_logind_connect\<close>: VT 1 open on descriptor 5, the
  signal descriptor 6, nothing pending, the trace empty.\<close>

definition connected :: "bool \<Rightarrow> bool \<Rightarrow> weston_logind" where
  "connected sync active =
     \<lparr>sync_drm = sync, sid = ''c1'', spath = ''/org/freedesktop/login1/session/c1'',
      vtnr = 1, vt = 5, kb_mode = 3, sfd = 6, sfd_source = Some 0,
      pending_active = None, session_active = active, bus_pending = [], next_pending = 0,
      errno = 0, exited = False, effects = []\<rparr>"

text \<open>A platform with a single real-time signal, on which everything before the test of
  the signal range succeeds: \<^verbatim>\<open>/dev/tty1\<close> opens as descriptor 5, it is the
  character device (4, 1), and the keyboard and console requests are accepted.\<close>

definition rt_short :: vt_env where
  "rt_short =
     \<lparr>ve_open = Inr 5, ve_fstat = Some \<lparr>st_is_chr = True, st_major = 4, st_minor = 1\<rparr>,
      ve_kdgkbmode = Inr 3, ve_kdskbmute = None, ve_kdskbmode = None, ve_kdsetmode = None,
      ve_sigrtmin = 64, ve_sigrtmax = 64, ve_signalfd = Inr 6, ve_add_fd = Inr 0,
      ve_vt_setmode = None\<rparr>"

text \<open>The reply of \<^verbatim>\<open>TakeDevice\<close>, and an open of the DRM device (226, 0) for which
  logind hands out descriptor 7; the answers of the two \<^verbatim>\<open>fcntl\<close> calls are left
  open.\<close>

definition take_reply :: "int \<Rightarrow> bool \<Rightarrow> dbus_message" where
  "take_reply fd paused =
     \<lparr>m_type = DBUS_MESSAGE_TYPE_METHOD_RETURN, m_interface = [], m_member = [],
      m_args = [DUnixFd fd, DBoolean paused]\<rparr>"

definition open_card0 :: "int + int \<Rightarrow> int option \<Rightarrow> open_env" where
  "open_card0 getfl setfl =
     \<lparr>oe_stat = Inr \<lparr>st_is_chr = True, st_major = 226, st_minor = 0\<rparr>,
      oe_take = \<lparr>td_alloc = no_oom, td_reply = Some (take_reply 7 False)\<rparr>,
      oe_getfl = getfl, oe_setfl = setfl, oe_release = no_oom\<rparr>"

section \<open>Properties\<close>

subsection \<open>Reading the trace\<close>

lemma effects_emit: "effects (emit e wl) = effects wl @ [e]"
  by (simp add: emit_def)

lemma session_active_emit: "session_active (emit e wl) = session_active wl"
  by (simp add: emit_def)

lemma session_active_set_active: "session_active (weston_logind_set_active v wl) = v"
  by (auto simp: weston_logind_set_active_def emit_def)

lemma notifications_set_active:
  "notifications (weston_logind_set_active v wl) =
     notifications wl @ (if v \<noteq> session_active wl then [Session_signal v] else [])"
  by (auto simp: notifications_def weston_logind_set_active_def emit_def)

lemma notifications_set_active_all:
  "notifications (set_active_all vs wl) =
     notifications wl @ map Session_signal (transitions (session_active wl) vs)"
proof (induction vs arbitrary: wl)
  case Nil
  show ?case by simp
next
  case (Cons v vs)
  show ?case
    by (simp add: Cons.IH notifications_set_active session_active_set_active)
qed

subsection \<open>Messages that carry the session-active value\<close>

lemma changed_loop_map:
  "changed_loop (map changed_entry changed) =
     (case map_of changed ''Active'' of
        None \<Rightarrow> Changed_done
      | Some v \<Rightarrow> Changed_active [DVariant v])"
  by (induction changed) (auto simp: changed_entry_def)

lemma invalidated_loop_map:
  "invalidated_loop (map DString names) \<longleftrightarrow> ''Active'' \<in> set names"
  by (induction names) auto

lemma parse_active_variant:
  "parse_active (DVariant (DBoolean b) # rest) wl =
     (if \<not> sync_drm wl \<or> \<not> b then weston_logind_set_active b wl else wl)"
  by (simp add: parse_active_def)

lemma property_changed_well_formed:
  "property_changed env (properties_changed iface changed invalidated) wl =
     (case map_of changed ''Active'' of
        Some v \<Rightarrow> parse_active [DVariant v] wl
      | None \<Rightarrow>
          if ''Active'' \<in> set invalidated then weston_logind_get_active env wl else wl)"
  by (simp add: property_changed_def properties_changed_def dbus_message_iter_init_def
        changed_loop_map invalidated_loop_map split: option.splits)

lemma filter_dbus_properties_changed:
  "filter_dbus env (properties_changed iface changed invalidated) wl =
     property_changed (fe_get_active env) (properties_changed iface changed invalidated) wl"
  by (simp add: filter_dbus_def dbus_message_is_signal_def properties_changed_def)

lemma get_active_cb_reply:
  "session_active (get_active_cb (Some (active_reply b)) wl) =
     (if sync_drm wl then session_active wl \<and> b else b)"
  by (auto simp: get_active_cb_def active_reply_def dbus_message_iter_init_def Let_def
        parse_active_variant dbus_pending_call_unref_def emit_def
        weston_logind_set_active_def split: option.splits)

lemma session_active_restore: "session_active (weston_logind_restore wl) = session_active wl"
  by (simp add: weston_logind_restore_def ioctl_def emit_def)

lemma session_active_disconnected: "session_active (disconnected_dbus wl) = session_active wl"
  by (simp add: disconnected_dbus_def exit_process_def session_active_restore weston_log_def emit_def)

lemma session_active_session_removed: "session_active (session_removed m wl) = session_active wl"
  by (simp add: session_removed_def exit_process_def session_active_restore weston_log_def emit_def
        split: list.splits dbus_arg.splits)

lemma session_active_get_active:
  "session_active (weston_logind_get_active env wl) = session_active wl"
  by (simp add: weston_logind_get_active_def Let_def dbus_pending_call_unref_def
        dbus_pending_call_cancel_def emit_def split: option.splits)

lemma sync_drm_set_active: "sync_drm (weston_logind_set_active v wl) = sync_drm wl"
  by (simp add: weston_logind_set_active_def emit_def)

lemma parse_active_never_raises:
  "sync_drm wl \<Longrightarrow> session_active (parse_active iter wl) \<Longrightarrow> session_active wl"
  by (auto simp: parse_active_def Let_def session_active_set_active split: if_splits)

lemma property_changed_never_raises:
  assumes "sync_drm wl" and "session_active (property_changed env m wl)"
  shows "session_active wl"
  using assms
  by (auto simp: property_changed_def property_changed_error_def weston_log_def emit_def
        session_active_get_active Let_def
        split: prod.splits if_splits changed_result.splits dest: parse_active_never_raises)

lemma device_paused_never_raises:
  "session_active (device_paused a m wl) \<Longrightarrow> session_active wl"
  by (auto simp: device_paused_def weston_logind_pause_device_complete_def weston_log_def emit_def
        Let_def session_active_set_active
        split: list.splits dbus_arg.splits if_splits)

lemma device_resumed_raises:
  assumes "sync_drm wl" and "\<not> session_active wl" and "session_active (device_resumed m wl)"
  shows "case m_args m of DUInt32 j # _ \<Rightarrow> j = DRM_MAJOR | _ \<Rightarrow> False"
  using assms
  by (auto simp: device_resumed_def weston_log_def emit_def
        split: list.splits dbus_arg.splits if_splits)

lemma get_active_cb_never_raises:
  assumes "sync_drm wl" and "session_active (get_active_cb reply wl)"
  shows "session_active wl"
proof -
  define wl2 where "wl2 =
    (case pending_active wl of None \<Rightarrow> wl | Some p \<Rightarrow> dbus_pending_call_unref p wl)
      \<lparr>pending_active := None\<rparr>"
  have same: "sync_drm wl2 = sync_drm wl" "session_active wl2 = session_active wl"
    by (simp_all add: wl2_def dbus_pending_call_unref_def emit_def split: option.splits)
  have "get_active_cb reply wl = wl2 \<or> (\<exists>iter. get_active_cb reply wl = parse_active iter wl2)"
    by (auto simp: get_active_cb_def Let_def wl2_def split: option.splits prod.splits)
  then show ?thesis
    using assms same parse_active_never_raises [of wl2] by auto
qed

lemma filter_dbus_raises_only_on_resume:
  assumes "sync_drm wl" and "\<not> session_active wl" and "session_active (filter_dbus env m wl)"
  shows "is_resume_of DRM_MAJOR m"
  using assms
  by (auto simp: filter_dbus_def is_resume_of_def session_active_disconnected
        session_active_session_removed
        split: if_splits
        dest: property_changed_never_raises device_paused_never_raises device_resumed_raises)

lemma filter_dbus_resume:
  assumes "sync_drm wl" and "is_resume_of DRM_MAJOR m"
  shows "session_active (filter_dbus env m wl)"
  using assms
  by (auto simp: filter_dbus_def is_resume_of_def dbus_message_is_signal_def device_resumed_def
        session_active_set_active split: list.splits dbus_arg.splits)

text \<open>The other edge: what can take the flag from true to false.\<close>

lemma push_value_well_formed:
  "push_value (properties_changed iface changed invalidated) =
     (case map_of changed ''Active'' of Some (DBoolean b) \<Rightarrow> Some b | _ \<Rightarrow> None)"
  by (simp add: push_value_def properties_changed_def dbus_message_is_signal_def changed_loop_map
        split: option.splits dbus_arg.splits)

lemma parse_active_lowers:
  assumes "session_active wl" and "\<not> session_active (parse_active iter wl)"
  shows "\<exists>rest. iter = DVariant (DBoolean False) # rest"
proof (cases iter)
  case Nil
  with assms show ?thesis by (simp add: parse_active_def)
next
  case (Cons a rest)
  show ?thesis
  proof (cases a)
    case (DVariant v)
    with assms Cons show ?thesis
      by (cases v) (auto simp: parse_active_def session_active_set_active split: if_splits)
  qed (use assms Cons in \<open>simp_all add: parse_active_def\<close>)
qed

lemma arg_type_string:
  "dbus_message_iter_get_arg_type it = DBUS_TYPE_STRING \<Longrightarrow> \<exists>s rest. it = DString s # rest"
proof (cases it)
  case (Cons a rest)
  assume "dbus_message_iter_get_arg_type it = DBUS_TYPE_STRING"
  with Cons show ?thesis by (cases a) simp_all
qed simp

lemma arg_type_array:
  "dbus_message_iter_get_arg_type it = DBUS_TYPE_ARRAY \<Longrightarrow> \<exists>xs rest. it = DArray xs # rest"
proof (cases it)
  case (Cons a rest)
  assume "dbus_message_iter_get_arg_type it = DBUS_TYPE_ARRAY"
  with Cons show ?thesis by (cases a) simp_all
qed simp

lemma property_changed_cases:
  "property_changed env m wl = property_changed_error wl
   \<or> property_changed env m wl = wl
   \<or> property_changed env m wl = weston_logind_get_active env wl
   \<or> (\<exists>s changed more entry.
         m_args m = DString s # DArray changed # more \<and>
         changed_loop changed = Changed_active entry \<and>
         property_changed env m wl = parse_active entry wl)"
proof (cases "dbus_message_iter_get_arg_type (m_args m) = DBUS_TYPE_STRING")
  case False
  then show ?thesis
    by (simp add: property_changed_def dbus_message_iter_init_def)
next
  case True
  then obtain s rest where args: "m_args m = DString s # rest"
    using arg_type_string by blast
  show ?thesis
  proof (cases "dbus_message_iter_get_arg_type rest = DBUS_TYPE_ARRAY")
    case False
    with args show ?thesis
      by (simp add: property_changed_def dbus_message_iter_init_def)
  next
    case True
    then obtain changed more where rest: "rest = DArray changed # more"
      using arg_type_array by blast
    show ?thesis
    proof (cases "changed_loop changed")
      case Changed_error
      then show ?thesis
        by (simp add: property_changed_def dbus_message_iter_init_def args rest)
    next
      case (Changed_active entry)
      then have "property_changed env m wl = parse_active entry wl"
        by (simp add: property_changed_def dbus_message_iter_init_def args rest)
      with Changed_active args rest show ?thesis by simp
    next
      case Changed_done
      then show ?thesis
        by (simp add: property_changed_def dbus_message_iter_init_def args rest Let_def)
    qed
  qed
qed

lemma property_changed_lowers:
  assumes "session_active wl" and "\<not> session_active (property_changed env m wl)"
  shows "\<exists>s changed more rest.
           m_args m = DString s # DArray changed # more \<and>
           changed_loop changed = Changed_active (DVariant (DBoolean False) # rest)"
proof -
  have "session_active (property_changed_error wl)"
    using assms(1) by (simp add: property_changed_error_def weston_log_def emit_def)
  moreover have "session_active (weston_logind_get_active env wl)"
    using assms(1) by (simp add: session_active_get_active)
  ultimately obtain s changed more entry where
    args: "m_args m = DString s # DArray changed # more"
    and entry: "changed_loop changed = Changed_active entry"
    and low: "\<not> session_active (parse_active entry wl)"
    using property_changed_cases [of env m wl] assms by auto
  from parse_active_lowers [OF assms(1) low] args entry show ?thesis
    by auto
qed

lemma pause_args_shape:
  "(case args of DUInt32 j # DUInt32 n # DString k # _ \<Rightarrow> f j n k | _ \<Rightarrow> g) = g
   \<or> (\<exists>j n k rest. args = DUInt32 j # DUInt32 n # DString k # rest)"
  by (auto split: list.splits dbus_arg.splits)

lemma device_paused_lowers:
  assumes "session_active wl" and "\<not> session_active (device_paused a m wl)"
  shows "sync_drm wl \<and> (\<exists>n k rest. m_args m = DUInt32 DRM_MAJOR # DUInt32 n # DString k # rest)"
proof -
  have "device_paused a m wl = weston_log ''logind: cannot parse PauseDevice dbus signal'' wl
      \<or> (\<exists>j n k rest. m_args m = DUInt32 j # DUInt32 n # DString k # rest)"
    unfolding device_paused_def by (rule pause_args_shape)
  moreover have "session_active (weston_log s wl)" for s
    using assms(1) by (simp add: weston_log_def emit_def)
  ultimately obtain j n k rest where args: "m_args m = DUInt32 j # DUInt32 n # DString k # rest"
    using assms(2) by auto
  have ack: "session_active (weston_logind_pause_device_complete a j n wl)"
    using assms(1) by (simp add: weston_logind_pause_device_complete_def emit_def)
  from assms(2) ack have "sync_drm wl \<and> j = DRM_MAJOR"
    by (auto simp: device_paused_def args Let_def weston_logind_pause_device_complete_def emit_def
          split: if_splits)
  with args show ?thesis by simp
qed

lemma is_pause_of_shape:
  "is_pause_of major m \<longleftrightarrow>
     dbus_message_is_signal m ''org.freedesktop.login1.Session'' ''PauseDevice'' \<and>
     (\<exists>n k rest. m_args m = DUInt32 major # DUInt32 n # DString k # rest)"
proof
  assume p: "is_pause_of major m"
  then have sig: "dbus_message_is_signal m ''org.freedesktop.login1.Session'' ''PauseDevice''"
    and c: "case m_args m of DUInt32 j # DUInt32 _ # DString _ # _ \<Rightarrow> j = major | _ \<Rightarrow> False"
    by (simp_all add: is_pause_of_def)
  from pause_args_shape [where args = "m_args m" and f = "\<lambda>j n k. j = major" and g = False] c
  obtain j n k rest where args: "m_args m = DUInt32 j # DUInt32 n # DString k # rest"
    by auto
  with c have "j = major" by simp
  with sig args
  show "dbus_message_is_signal m ''org.freedesktop.login1.Session'' ''PauseDevice'' \<and>
        (\<exists>n k rest. m_args m = DUInt32 major # DUInt32 n # DString k # rest)"
    by simp
next
  assume "dbus_message_is_signal m ''org.freedesktop.login1.Session'' ''PauseDevice'' \<and>
          (\<exists>n k rest. m_args m = DUInt32 major # DUInt32 n # DString k # rest)"
  then show "is_pause_of major m"
    by (auto simp: is_pause_of_def)
qed

lemma device_resumed_never_lowers:
  "session_active wl \<Longrightarrow> session_active (device_resumed m wl)"
  by (auto simp: device_resumed_def weston_log_def emit_def session_active_set_active
        split: list.splits dbus_arg.splits)

lemma filter_dbus_lowers_only_on_pause_or_value:
  assumes "session_active wl" and "\<not> session_active (filter_dbus env m wl)"
  shows "(sync_drm wl \<and> is_pause_of DRM_MAJOR m) \<or> push_value m = Some False"
proof -
  consider (changed)
      "dbus_message_is_signal m ''org.freedesktop.DBus.Properties'' ''PropertiesChanged''"
      "\<not> session_active (property_changed (fe_get_active env) m wl)"
    | (paused)
      "dbus_message_is_signal m ''org.freedesktop.login1.Session'' ''PauseDevice''"
      "\<not> session_active (device_paused (fe_pause env) m wl)"
    using assms
    by (auto simp: filter_dbus_def session_active_disconnected session_active_session_removed
          device_resumed_never_lowers split: if_splits)
  then show ?thesis
  proof cases
    case changed
    from property_changed_lowers [OF assms(1) changed(2)] changed(1) show ?thesis
      by (auto simp: push_value_def)
  next
    case paused
    from device_paused_lowers [OF assms(1) paused(2)] paused(1) show ?thesis
      by (auto simp: is_pause_of_shape)
  qed
qed

lemma filter_dbus_pause:
  assumes "sync_drm wl" and "is_pause_of DRM_MAJOR m"
  shows "\<not> session_active (filter_dbus env m wl)"
proof -
  from assms(2) obtain n k rest where
    sig: "dbus_message_is_signal m ''org.freedesktop.login1.Session'' ''PauseDevice''"
    and args: "m_args m = DUInt32 DRM_MAJOR # DUInt32 n # DString k # rest"
    by (auto simp: is_pause_of_shape)
  have "filter_dbus env m wl = device_paused (fe_pause env) m wl"
    using sig by (simp add: filter_dbus_def dbus_message_is_signal_def)
  moreover have "\<not> session_active (device_paused (fe_pause env) m wl)"
    using assms(1)
    by (simp add: device_paused_def args Let_def weston_logind_pause_device_complete_def emit_def
          session_active_set_active)
  ultimately show ?thesis by simp
qed

lemma get_active_cb_lowers:
  assumes "session_active wl" and "\<not> session_active (get_active_cb reply wl)"
  shows "reply_value reply = Some False"
proof -
  define wl2 where "wl2 =
    (case pending_active wl of None \<Rightarrow> wl | Some p \<Rightarrow> dbus_pending_call_unref p wl)
      \<lparr>pending_active := None\<rparr>"
  have act2: "session_active wl2"
    using assms(1) by (simp add: wl2_def dbus_pending_call_unref_def emit_def split: option.splits)
  obtain m where m: "reply = Some m" "m_type m = DBUS_MESSAGE_TYPE_METHOD_RETURN"
    and low: "\<not> session_active (parse_active (m_args m) wl2)"
    using assms(2) act2
    by (cases reply)
       (auto simp: get_active_cb_def Let_def wl2_def dbus_message_iter_init_def split: if_splits)
  from parse_active_lowers [OF act2 low] m show ?thesis
    by (auto simp: reply_value_def)
qed

subsection \<open>The active flag and its notification\<close>

text \<open>
  C6. Whatever the sequence of values written to the active flag, the change notifications
  that the writes emit are exactly the logical transitions of the sequence, one
  notification for each, in order; writing the value that the flag already has changes
  nothing at all; and writing the same value twice emits what writing it once emits.
\<close>

theorem set_active_one_notification_per_transition:
  "notifications (set_active_all vs wl) =
     notifications wl @ map Session_signal (transitions (session_active wl) vs)
   \<and> weston_logind_set_active (session_active wl) wl = wl
   \<and> notifications (weston_logind_set_active v (weston_logind_set_active v wl)) =
       notifications (weston_logind_set_active v wl)"
  by (simp add: notifications_set_active_all notifications_set_active session_active_set_active)
     (simp add: weston_logind_set_active_def)

subsection \<open>Synchronization with the DRM device\<close>

text \<open>
  C1 (as amended). With synchronization enabled, the flag changes only on DRM-major
  device pause and resume events and on a delivered session-active value false: on the
  bus, it goes from false to true on a resume notification for the DRM major and on
  nothing else, and from true to false on a pause notification for the DRM major or on a
  \<^verbatim>\<open>PropertiesChanged\<close> signal that delivers \<^verbatim>\<open>Active = false\<close>, and on nothing
  else; the reply to the property query never raises it and lowers it only when it
  delivers false. A delivered value true leaves the flag as it is, a delivered value
  false is applied. With synchronization disabled, every delivered value is applied: the
  flag is the value.
\<close>

theorem delivered_active_value:
  assumes "map_of changed ''Active'' = Some (DBoolean b)"
  shows "session_active (filter_dbus env (properties_changed iface changed invalidated) wl) =
           (if sync_drm wl then session_active wl \<and> b else b)
       \<and> session_active (get_active_cb (Some (active_reply b)) wl) =
           (if sync_drm wl then session_active wl \<and> b else b)
       \<and> (sync_drm wl \<and> \<not> session_active wl \<and> session_active (filter_dbus env m wl) \<longrightarrow>
            is_resume_of DRM_MAJOR m)
       \<and> (sync_drm wl \<and> session_active wl \<and> \<not> session_active (filter_dbus env m wl) \<longrightarrow>
            is_pause_of DRM_MAJOR m \<or> push_value m = Some False)
       \<and> (sync_drm wl \<and> is_resume_of DRM_MAJOR m \<longrightarrow> session_active (filter_dbus env m wl))
       \<and> (sync_drm wl \<and> is_pause_of DRM_MAJOR m \<longrightarrow> \<not> session_active (filter_dbus env m wl))
       \<and> (sync_drm wl \<and> \<not> session_active wl \<longrightarrow> \<not> session_active (get_active_cb reply wl))
       \<and> (sync_drm wl \<and> session_active wl \<and> \<not> session_active (get_active_cb reply wl) \<longrightarrow>
            reply_value reply = Some False)"
proof -
  have delivered:
    "session_active (filter_dbus env (properties_changed iface changed invalidated) wl) =
       (if sync_drm wl then session_active wl \<and> b else b)"
    "session_active (get_active_cb (Some (active_reply b)) wl) =
       (if sync_drm wl then session_active wl \<and> b else b)"
    using assms
    by (auto simp: filter_dbus_properties_changed property_changed_well_formed get_active_cb_reply
          parse_active_variant session_active_set_active)
  show ?thesis
    using delivered filter_dbus_raises_only_on_resume [of wl env m]
      filter_dbus_lowers_only_on_pause_or_value [of wl env m]
      filter_dbus_resume [of wl m env] filter_dbus_pause [of wl m env]
      get_active_cb_never_raises [of wl reply] get_active_cb_lowers [of wl reply]
    by blast
qed

theorem delivered_active_value_witness:
  "\<not> session_active
       (filter_dbus filter_ok
          (properties_changed ''org.freedesktop.login1.Session'' [(''Active'', DBoolean True)] [])
          (connected True False))
   \<and> session_active
       (filter_dbus filter_ok
          (properties_changed ''org.freedesktop.login1.Session'' [(''Active'', DBoolean True)] [])
          (connected False False))
   \<and> \<not> session_active
       (filter_dbus filter_ok
          (properties_changed ''org.freedesktop.login1.Session'' [(''Active'', DBoolean False)] [])
          (connected True True))
   \<and> session_active (filter_dbus filter_ok (resume_device 226 0 9) (connected True False))
   \<and> \<not> session_active (filter_dbus filter_ok (pause_device 226 0 ''force'') (connected True True))
   \<and> session_active (filter_dbus filter_ok (pause_device 13 64 ''pause'') (connected True True))
   \<and> \<not> session_active (get_active_cb (Some (active_reply True)) (connected True False))"
proof -
  let ?push = "\<lambda>b. properties_changed ''org.freedesktop.login1.Session'' [(''Active'', DBoolean b)] []"
  have on: "sync_drm (connected True True)" "session_active (connected True True)"
    and off: "sync_drm (connected True False)" "\<not> session_active (connected True False)"
    by (simp_all add: connected_def)
  have resume: "is_resume_of DRM_MAJOR (resume_device 226 0 9)"
    by (simp add: is_resume_of_def resume_device_def dbus_message_is_signal_def DRM_MAJOR_def)
  have pause: "is_pause_of DRM_MAJOR (pause_device 226 0 ''force'')"
    by (simp add: is_pause_of_def pause_device_def dbus_message_is_signal_def DRM_MAJOR_def)
  have other: "\<not> is_pause_of DRM_MAJOR (pause_device 13 64 ''pause'')"
    "push_value (pause_device 13 64 ''pause'') \<noteq> Some False"
    by (simp_all add: is_pause_of_def push_value_def pause_device_def dbus_message_is_signal_def
          DRM_MAJOR_def)
  have t: "map_of [(''Active'', DBoolean True)] ''Active'' = Some (DBoolean True)"
    and f: "map_of [(''Active'', DBoolean False)] ''Active'' = Some (DBoolean False)"
    by simp_all
  show ?thesis
    using delivered_active_value [OF t, of filter_ok "''org.freedesktop.login1.Session''" "[]"
            "connected True False" "resume_device 226 0 9" "Some (active_reply True)"]
          delivered_active_value [OF t, of filter_ok "''org.freedesktop.login1.Session''" "[]"
            "connected False False"]
          delivered_active_value [OF f, of filter_ok "''org.freedesktop.login1.Session''" "[]"
            "connected True True" "pause_device 226 0 ''force''"]
          delivered_active_value [OF f, of filter_ok "''org.freedesktop.login1.Session''" "[]"
            "connected True True" "pause_device 13 64 ''pause''"]
          on off resume pause other
    by (simp add: connected_def)
qed

text \<open>
  C1 as it was stated fails: with synchronization enabled and the session active, a
  \<^verbatim>\<open>PropertiesChanged\<close> signal that carries \<^verbatim>\<open>Active = false\<close> clears the flag.
\<close>

theorem delivered_false_clears_flag_under_sync:
  "sync_drm (connected True True) \<and> session_active (connected True True) \<and>
   \<not> session_active
       (filter_dbus filter_ok
          (properties_changed ''org.freedesktop.login1.Session'' [(''Active'', DBoolean False)] [])
          (connected True True))"
  by (simp add: filter_dbus_properties_changed property_changed_well_formed parse_active_variant
        session_active_set_active)
     (simp add: connected_def)

text \<open>
  C2. With synchronization enabled, a \<^verbatim>\<open>PropertiesChanged\<close> signal that carries
  \<^verbatim>\<open>Active = true\<close> changes nothing; a resume notification for major 226 makes the flag
  true, and no other message of the bus, and no reply to the property query, takes the
  flag from false to true. With synchronization disabled, the signal that carries
  \<^verbatim>\<open>Active = true\<close> alone writes true to the flag.
\<close>

theorem active_true_push_needs_resume_under_sync:
  "(sync_drm wl \<and> map_of changed ''Active'' = Some (DBoolean True) \<longrightarrow>
      filter_dbus env (properties_changed iface changed invalidated) wl = wl)
   \<and> (sync_drm wl \<and> is_resume_of 226 m \<longrightarrow> session_active (filter_dbus env m wl))
   \<and> (sync_drm wl \<and> \<not> session_active wl \<and> session_active (filter_dbus env m wl) \<longrightarrow>
        is_resume_of 226 m)
   \<and> (sync_drm wl \<and> \<not> session_active wl \<longrightarrow> \<not> session_active (get_active_cb reply wl))
   \<and> (\<not> sync_drm wl \<and> map_of changed ''Active'' = Some (DBoolean True) \<longrightarrow>
        filter_dbus env (properties_changed iface changed invalidated) wl =
          weston_logind_set_active True wl
        \<and> session_active (filter_dbus env (properties_changed iface changed invalidated) wl))"
proof -
  have drm: "DRM_MAJOR = 226" by (simp add: DRM_MAJOR_def)
  show ?thesis
    using filter_dbus_raises_only_on_resume [of wl env m] filter_dbus_resume [of wl m env]
      get_active_cb_never_raises [of wl reply]
    by (auto simp: drm filter_dbus_properties_changed property_changed_well_formed
          parse_active_variant session_active_set_active)
qed

theorem active_true_push_needs_resume_under_sync_witness:
  "filter_dbus filter_ok
     (properties_changed ''org.freedesktop.login1.Session'' [(''Active'', DBoolean True)] [])
     (connected True False) = connected True False
   \<and> session_active (filter_dbus filter_ok (resume_device 226 0 9) (connected True False))
   \<and> \<not> session_active (get_active_cb (Some (active_reply True)) (connected True False))
   \<and> session_active
       (filter_dbus filter_ok
          (properties_changed ''org.freedesktop.login1.Session'' [(''Active'', DBoolean True)] [])
          (connected False False))"
proof -
  have sync: "sync_drm (connected True False)" "\<not> sync_drm (connected False False)"
    and off: "\<not> session_active (connected True False)"
    by (simp_all add: connected_def)
  have carried: "map_of [(''Active'', DBoolean True)] ''Active'' = Some (DBoolean True)"
    by simp
  have resume: "is_resume_of 226 (resume_device 226 0 9)"
    by (simp add: is_resume_of_def resume_device_def dbus_message_is_signal_def)
  show ?thesis
    using active_true_push_needs_resume_under_sync
            [of "connected True False" "[(''Active'', DBoolean True)]" filter_ok
                "''org.freedesktop.login1.Session''" "[]" "resume_device 226 0 9"
                "Some (active_reply True)"]
          active_true_push_needs_resume_under_sync
            [of "connected False False" "[(''Active'', DBoolean True)]" filter_ok
                "''org.freedesktop.login1.Session''" "[]" "resume_device 226 0 9"
                "Some (active_reply True)"]
          sync off carried resume
    by blast
qed

subsection \<open>The pending query\<close>

lemma pending_inv_cong:
  assumes "pending_active wl' = pending_active wl" and "bus_pending wl' = bus_pending wl"
    and "next_pending wl' = next_pending wl"
  shows "pending_inv wl' = pending_inv wl"
  using assms by (simp add: pending_inv_def)

lemma pending_inv_set_active: "pending_inv (weston_logind_set_active v wl) = pending_inv wl"
  by (rule pending_inv_cong) (simp_all add: weston_logind_set_active_def emit_def)

lemma pending_inv_parse_active: "pending_inv (parse_active iter wl) = pending_inv wl"
  by (simp add: parse_active_def Let_def pending_inv_set_active)

lemma pending_inv_weston_log: "pending_inv (weston_log s wl) = pending_inv wl"
  by (rule pending_inv_cong) (simp_all add: weston_log_def emit_def)

lemma pending_inv_restore_exit:
  "pending_inv (exit_process c (weston_logind_restore (weston_log s wl))) = pending_inv wl"
  by (rule pending_inv_cong)
     (simp_all add: exit_process_def weston_logind_restore_def ioctl_def weston_log_def emit_def)

lemma pending_inv_get_active:
  assumes "pending_inv wl"
  shows "pending_inv (weston_logind_get_active env wl)"
  using assms
  by (auto simp: weston_logind_get_active_def pending_inv_def Let_def dbus_pending_call_cancel_def
        dbus_pending_call_unref_def emit_def split: option.splits)

lemma get_active_registers:
  assumes "pending_inv wl" and "registers env"
  shows "bus_pending (weston_logind_get_active env wl) = [next_pending wl]"
    and "pending_active (weston_logind_get_active env wl) = Some (next_pending wl)"
    and "pending_active wl = Some old \<Longrightarrow>
           effects (weston_logind_get_active env wl) =
             effects wl @ [Bus_send_with_reply (spath wl) ''Get''
                             [DString ''org.freedesktop.login1.Session'', DString ''Active'']
                             (next_pending wl),
                           Pending_cancel old, Pending_unref old]"
  using assms
  by (auto simp: weston_logind_get_active_def pending_inv_def registers_def alloc_ok_def Let_def
        dbus_pending_call_cancel_def dbus_pending_call_unref_def emit_def split: option.splits)

lemma pending_inv_property_changed:
  assumes "pending_inv wl"
  shows "pending_inv (property_changed env m wl)"
  using assms
  by (auto simp: property_changed_def property_changed_error_def pending_inv_weston_log
        pending_inv_parse_active pending_inv_get_active Let_def
        split: prod.splits changed_result.splits)

lemma pending_inv_device_paused: "pending_inv (device_paused a m wl) = pending_inv wl"
proof -
  have ack: "pending_inv (weston_logind_pause_device_complete a major minor wl) = pending_inv wl"
    for major minor
    by (rule pending_inv_cong) (simp_all add: weston_logind_pause_device_complete_def emit_def)
  show ?thesis
    by (simp add: device_paused_def Let_def ack pending_inv_set_active pending_inv_weston_log
          split: list.splits dbus_arg.splits)
qed

lemma pending_inv_device_resumed: "pending_inv (device_resumed m wl) = pending_inv wl"
  by (simp add: device_resumed_def pending_inv_set_active pending_inv_weston_log
        split: list.splits dbus_arg.splits)

lemma pending_inv_session_removed: "pending_inv (session_removed m wl) = pending_inv wl"
  by (simp add: session_removed_def pending_inv_restore_exit pending_inv_weston_log
        split: list.splits dbus_arg.splits)

lemma pending_inv_filter_dbus:
  assumes "pending_inv wl"
  shows "pending_inv (filter_dbus env m wl)"
  using assms
  by (simp add: filter_dbus_def disconnected_dbus_def pending_inv_restore_exit
        pending_inv_session_removed pending_inv_property_changed pending_inv_device_paused
        pending_inv_device_resumed)

lemma pending_inv_get_active_cb:
  assumes "pending_inv wl" and "p \<in> set (bus_pending wl)"
  shows "pending_inv (get_active_cb reply (wl\<lparr>bus_pending := removeAll p (bus_pending wl)\<rparr>))"
proof -
  from assms have shape: "pending_active wl = Some p" "bus_pending wl = [p]"
    by (auto simp: pending_inv_def split: option.splits)
  define wl2 where
    "wl2 = (dbus_pending_call_unref p (wl\<lparr>bus_pending := []\<rparr>))\<lparr>pending_active := None\<rparr>"
  have inv2: "pending_inv wl2"
    by (simp add: wl2_def pending_inv_def dbus_pending_call_unref_def emit_def)
  have "get_active_cb reply (wl\<lparr>bus_pending := removeAll p (bus_pending wl)\<rparr>) = wl2
      \<or> (\<exists>iter. get_active_cb reply (wl\<lparr>bus_pending := removeAll p (bus_pending wl)\<rparr>) =
                  parse_active iter wl2)"
    by (auto simp: get_active_cb_def Let_def shape wl2_def split: option.splits prod.splits)
  then show ?thesis
    using inv2 by (auto simp: pending_inv_parse_active)
qed

lemma pending_inv_handle_event:
  assumes "pending_inv wl"
  shows "pending_inv (handle_event e wl)"
  using assms
  by (cases e) (simp_all add: pending_inv_filter_dbus pending_inv_get_active_cb)

lemma pending_inv_run:
  assumes "pending_inv wl"
  shows "pending_inv (run es wl)"
  using assms
  by (induction es arbitrary: wl) (simp_all add: pending_inv_handle_event)

lemma pending_inv_at_most_one: "pending_inv wl \<Longrightarrow> length (bus_pending wl) \<le> 1"
  by (simp add: pending_inv_def split: option.splits)

text \<open>
  C5. From a state in which the connection's pending calls are the one the helper
  remembers (as it is after connect, with none), a query that gets as far as registering
  its pending call leaves exactly that new call pending; a call that was pending before
  is cancelled and released within the same invocation, right after the new request was
  handed to the connection; a second query in succession leaves one call pending again;
  and after any sequence of bus messages and replies at most one call is pending.
\<close>

theorem at_most_one_pending_query:
  assumes "pending_inv wl" and "registers env"
  shows "bus_pending (weston_logind_get_active env wl) = [next_pending wl]
       \<and> pending_active (weston_logind_get_active env wl) = Some (next_pending wl)
       \<and> (\<forall>old. pending_active wl = Some old \<longrightarrow>
             effects (weston_logind_get_active env wl) =
               effects wl @ [Bus_send_with_reply (spath wl) ''Get''
                               [DString ''org.freedesktop.login1.Session'', DString ''Active'']
                               (next_pending wl),
                             Pending_cancel old, Pending_unref old])
       \<and> (registers env2 \<longrightarrow>
             length (bus_pending (weston_logind_get_active env2
                                    (weston_logind_get_active env wl))) = 1)
       \<and> length (bus_pending (run es wl)) \<le> 1"
proof -
  have "registers env2 \<Longrightarrow>
          length (bus_pending (weston_logind_get_active env2
                                 (weston_logind_get_active env wl))) = 1"
    using get_active_registers(1) [OF pending_inv_get_active [OF assms(1)], of env2 env]
    by simp
  then show ?thesis
    using get_active_registers [OF assms] pending_inv_at_most_one [OF pending_inv_run [OF assms(1)]]
    by blast
qed

theorem at_most_one_pending_query_witness:
  "bus_pending (weston_logind_get_active query_ok (connected True False)) = [0]
   \<and> length (bus_pending (weston_logind_get_active query_ok
                             (weston_logind_get_active query_ok (connected True False)))) = 1"
proof -
  have inv: "pending_inv (connected True False)"
    by (simp add: pending_inv_def connected_def)
  have reg: "registers query_ok"
    by (simp add: registers_def query_ok_def alloc_ok_def no_oom_def)
  have nxt: "next_pending (connected True False) = 0"
    by (simp add: connected_def)
  show ?thesis
    using at_most_one_pending_query [OF inv reg, of query_ok "[]"] reg nxt
    by simp
qed

subsection \<open>Pause notifications\<close>

text \<open>
  C7 (as amended). A pause notification \<open>(major, minor, kind)\<close> whose kind is
  \<^verbatim>\<open>pause\<close> is answered by exactly one \<^verbatim>\<open>PauseDeviceComplete\<close> with the same major
  and minor, whatever the major is and whatever the mode, provided that libdbus can build
  the message; when it cannot, nothing is sent. For every other kind, \<^verbatim>\<open>force\<close> and
  \<^verbatim>\<open>gone\<close> among them, nothing is sent in either case. The only other effect is the
  change notification when the DRM device of an active session is paused under
  synchronization. The dispatcher hands every \<^verbatim>\<open>PauseDevice\<close> signal of the session
  interface to this handler.
\<close>

theorem pause_acknowledged_when_built:
  assumes "m_args m = DUInt32 major # DUInt32 minor # DString kind # rest"
  shows "effects (device_paused a m wl) =
           effects wl
           @ (if kind = ''pause'' \<and> alloc_ok a
              then [Bus_send (spath wl) ''PauseDeviceComplete'' [DUInt32 major, DUInt32 minor]]
              else [])
           @ (if sync_drm wl \<and> major = DRM_MAJOR \<and> session_active wl
              then [Session_signal False] else [])
       \<and> (dbus_message_is_signal m ''org.freedesktop.login1.Session'' ''PauseDevice'' \<longrightarrow>
            filter_dbus env m wl = device_paused (fe_pause env) m wl)"
  using assms
  by (auto simp: device_paused_def weston_logind_pause_device_complete_def alloc_ok_def
        weston_logind_set_active_def emit_def Let_def filter_dbus_def dbus_message_is_signal_def)

theorem pause_acknowledged_when_built_witness:
  "effects (filter_dbus filter_ok (pause_device 13 64 ''pause'') (connected True True)) =
     [Bus_send ''/org/freedesktop/login1/session/c1'' ''PauseDeviceComplete''
        [DUInt32 13, DUInt32 64]]
   \<and> effects (filter_dbus filter_ok (pause_device 226 0 ''pause'') (connected False True)) =
     [Bus_send ''/org/freedesktop/login1/session/c1'' ''PauseDeviceComplete''
        [DUInt32 226, DUInt32 0]]
   \<and> effects (filter_dbus filter_ok (pause_device 226 0 ''gone'') (connected True True)) =
     [Session_signal False]
   \<and> effects (filter_dbus filter_ok (pause_device 13 64 ''force'') (connected True True)) = []"
proof -
  have mem: "alloc_ok (fe_pause filter_ok)"
    by (simp add: alloc_ok_def no_oom_def filter_ok_def)
  have sig: "dbus_message_is_signal (pause_device j n k) ''org.freedesktop.login1.Session''
               ''PauseDevice''" for j n k
    by (simp add: dbus_message_is_signal_def pause_device_def)
  have args: "m_args (pause_device j n k) = DUInt32 j # DUInt32 n # DString k # []" for j n k
    by (simp add: pause_device_def)
  show ?thesis
    using pause_acknowledged_when_built
        [where m = "pause_device 13 64 ''pause''" and major = 13 and minor = 64 and kind = "''pause''"
           and rest = "[]" and a = "fe_pause filter_ok" and wl = "connected True True" and env = filter_ok]
      pause_acknowledged_when_built
        [where m = "pause_device 226 0 ''pause''" and major = 226 and minor = 0 and kind = "''pause''"
           and rest = "[]" and a = "fe_pause filter_ok" and wl = "connected False True" and env = filter_ok]
      pause_acknowledged_when_built
        [where m = "pause_device 226 0 ''gone''" and major = 226 and minor = 0 and kind = "''gone''"
           and rest = "[]" and a = "fe_pause filter_ok" and wl = "connected True True" and env = filter_ok]
      pause_acknowledged_when_built
        [where m = "pause_device 13 64 ''force''" and major = 13 and minor = 64 and kind = "''force''"
           and rest = "[]" and a = "fe_pause filter_ok" and wl = "connected True True" and env = filter_ok]
      mem sig args
    by (simp add: connected_def DRM_MAJOR_def)
qed

text \<open>
  C7 as it was stated fails: a well-formed notification of kind \<^verbatim>\<open>pause\<close> that arrives
  when \<^verbatim>\<open>dbus_message_new_method_call\<close> returns no message is not acknowledged.
\<close>

theorem pause_unacknowledged_without_memory:
  "dbus_message_is_signal (pause_device 13 64 ''pause'') ''org.freedesktop.login1.Session''
     ''PauseDevice''
   \<and> m_args (pause_device 13 64 ''pause'') = [DUInt32 13, DUInt32 64, DString ''pause'']
   \<and> effects (filter_dbus \<lparr>fe_get_active = query_ok,
                             fe_pause = \<lparr>new_ok = False, append_ok = False\<rparr>\<rparr>
                 (pause_device 13 64 ''pause'') (connected True True)) = []"
  by (simp add: filter_dbus_def dbus_message_is_signal_def pause_device_def device_paused_def
        weston_logind_pause_device_complete_def connected_def DRM_MAJOR_def)

subsection \<open>VT switch signals\<close>

text \<open>
  C8. When the signal descriptor delivers the release signal (\<^verbatim>\<open>SIGRTMIN\<close>), the handler
  issues exactly one request on the VT, \<^verbatim>\<open>VT_RELDISP\<close> with argument 1 (the release is
  granted), and no other request before or after it; when it delivers the acquire signal
  (\<^verbatim>\<open>SIGRTMIN + 1\<close>), the handler issues exactly one request, \<^verbatim>\<open>VT_RELDISP\<close> with
  \<^verbatim>\<open>VT_ACKACQ\<close>. Nothing else of the state changes.
\<close>

theorem signal_event_acknowledges:
  "signal_event sigrtmin (Some (word_of_int sigrtmin)) wl =
     (0, wl\<lparr>effects := effects wl @ [Ioctl (vt wl) (VT_RELDISP 1)]\<rparr>)
   \<and> signal_event sigrtmin (Some (word_of_int sigrtmin + 1)) wl =
     (0, wl\<lparr>effects := effects wl @ [Ioctl (vt wl) (VT_RELDISP VT_ACKACQ)]\<rparr>)"
  by (simp add: signal_event_def ioctl_def emit_def)

subsection \<open>Setting up the VT\<close>

text \<open>
  C3. The claim asks that a failure of the test of the real-time signal range unwinds the
  steps before it. On a platform with a single real-time signal, where the steps before
  the test succeed, \<^verbatim>\<open>weston_logind_setup_vt\<close> returns \<^verbatim>\<open>-EINVAL\<close> after the console
  was put in graphics mode and the keyboard muted, and issues nothing after the log line:
  text mode is not restored, the keyboard is not unmuted, the VT stays open.
\<close>

theorem setup_vt_rt_range_returns_without_unwinding:
  "fst (weston_logind_setup_vt rt_short (connected True False)) = - EINVAL
   \<and> effects (snd (weston_logind_setup_vt rt_short (connected True False))) =
       [Open_tty 1, Ioctl 5 KDGKBMODE, Ioctl 5 (KDSKBMUTE 1), Ioctl 5 (KDSETMODE KD_GRAPHICS),
        Log ''logind: not enough RT signals available: %u-%u'']"
  by (simp add: weston_logind_setup_vt_def setup_vt_mute_def setup_vt_graphics_def
        setup_vt_signals_def rt_short_def connected_def ioctl_def emit_def weston_log_def
        TTY_MAJOR_def K_OFF_def Let_def word_le_nat_alt)

theorem setup_vt_rt_range_returns_without_unwinding_witness:
  "Close 5 \<notin> set (effects (snd (weston_logind_setup_vt rt_short (connected True False))))
   \<and> Ioctl 5 (KDSETMODE KD_TEXT)
         \<notin> set (effects (snd (weston_logind_setup_vt rt_short (connected True False))))
   \<and> Ioctl 5 (KDSKBMUTE 0)
         \<notin> set (effects (snd (weston_logind_setup_vt rt_short (connected True False))))"
  using setup_vt_rt_range_returns_without_unwinding
  by (simp add: KD_TEXT_def KD_GRAPHICS_def)

text \<open>The next failure on the same path, of \<^verbatim>\<open>signalfd\<close>, does unwind: text mode,
  keyboard, descriptor.\<close>

lemma setup_vt_signalfd_failure_unwinds:
  assumes "ve_sigrtmin env + 1 \<le> ve_sigrtmax env" and "ve_signalfd env = Inl e"
  shows "fst (setup_vt_signals env wl) = - e"
    and "\<exists>pre. effects (snd (setup_vt_signals env wl)) =
           pre @ [Ioctl (vt wl) (KDSETMODE KD_TEXT), Ioctl (vt wl) (KDSKBMUTE 0),
                  Ioctl (vt wl) (KDSKBMODE (kb_mode wl)), Close (vt wl)]"
  using assms
  by (simp_all add: setup_vt_signals_def err_mode_def err_kbmode_def err_close_def
        ioctl_def emit_def weston_log_def Let_def)

subsection \<open>Opening a device\<close>

lemma O_NONBLOCK_bit: "O_NONBLOCK = 2 ^ 11"
  by (simp add: O_NONBLOCK_def)

lemma bit_O_NONBLOCK: "bit O_NONBLOCK n \<longleftrightarrow> n = 11"
  unfolding O_NONBLOCK_bit bit_exp_iff by simp

lemma setfl_argument:
  "(if (flags AND O_NONBLOCK) \<noteq> 0 then (fl OR O_NONBLOCK) else fl) = fl OR (flags AND O_NONBLOCK)"
  for flags fl :: int
proof (cases "bit flags 11")
  case True
  then have "flags AND O_NONBLOCK = O_NONBLOCK"
    by (intro bit_eqI) (auto simp: bit_and_iff bit_O_NONBLOCK)
  then show ?thesis
    using bit_O_NONBLOCK [of 11] by auto
next
  case False
  then have "flags AND O_NONBLOCK = 0"
    by (intro bit_eqI) (auto simp: bit_and_iff bit_O_NONBLOCK)
  then show ?thesis by simp
qed

lemma setfl_argument_bits:
  "bit (fl OR (flags AND O_NONBLOCK)) n \<longleftrightarrow> bit fl n \<or> (n = 11 \<and> bit flags 11)"
  for flags fl :: int
  by (auto simp: bit_or_iff bit_and_iff bit_O_NONBLOCK)

lemma take_device_effects:
  assumes "weston_logind_take_device tenv major minor wl = (fd, paused, wl1)" and "0 \<le> fd"
  shows "wl1 = emit (Bus_call (spath wl) ''TakeDevice'' [DUInt32 major, DUInt32 minor]) wl"
  using assms
  by (auto simp: weston_logind_take_device_def Let_def ENOMEM_def ENODEV_def
        split: if_splits option.splits list.splits dbus_arg.splits)

text \<open>
  C4. When the device is a character device, \<^verbatim>\<open>TakeDevice\<close> has given a descriptor, and
  then \<^verbatim>\<open>F_GETFL\<close> or \<^verbatim>\<open>F_SETFL\<close> fails, \<^verbatim>\<open>weston_logind_open\<close> closes the
  descriptor, then sends \<^verbatim>\<open>ReleaseDevice\<close> for the same major and minor, and returns
  \<open>-1\<close> with the error of the failed call in \<^verbatim>\<open>errno\<close>. The release is a
  fire-and-forget call: it is sent when libdbus has the memory to build the message.
\<close>

theorem open_releases_device_on_local_failure:
  assumes "oe_stat env = Inr st" and "st_is_chr st"
    and "weston_logind_take_device (oe_take env) (st_major st) (st_minor st) wl = (fd, paused, wl1)"
    and "0 \<le> fd"
    and "oe_getfl env = Inl e \<or> (\<exists>fl. oe_getfl env = Inr fl \<and> oe_setfl env = Some e)"
    and "alloc_ok (oe_release env)"
  shows "fst (weston_logind_open env path flags wl) = - 1
       \<and> errno (snd (weston_logind_open env path flags wl)) = e
       \<and> effects (snd (weston_logind_open env path flags wl)) =
           effects wl1
           @ (case oe_getfl env of
                Inl _ \<Rightarrow> [Fcntl_getfl fd]
              | Inr fl \<Rightarrow> [Fcntl_getfl fd, Fcntl_setfl fd (fl OR (flags AND O_NONBLOCK))])
           @ [Close fd,
              Bus_send (spath wl) ''ReleaseDevice'' [DUInt32 (st_major st), DUInt32 (st_minor st)]]"
proof -
  have wl1: "wl1 = emit (Bus_call (spath wl) ''TakeDevice''
                           [DUInt32 (st_major st), DUInt32 (st_minor st)]) wl"
    using take_device_effects [OF assms(3,4)] .
  show ?thesis
    using assms(1-5) assms(6)
    by (auto simp: weston_logind_open_def open_err_close_def weston_logind_release_device_def
          alloc_ok_def wl1 emit_def Let_def setfl_argument)
qed

theorem open_releases_device_on_local_failure_witness:
  "fst (weston_logind_open (open_card0 (Inl 9) None) ''/dev/dri/card0'' 524290 (connected True False))
     = - 1
   \<and> effects (snd (weston_logind_open (open_card0 (Inl 9) None) ''/dev/dri/card0'' 524290
                     (connected True False))) =
       [Bus_call ''/org/freedesktop/login1/session/c1'' ''TakeDevice'' [DUInt32 226, DUInt32 0],
        Fcntl_getfl 7, Close 7,
        Bus_send ''/org/freedesktop/login1/session/c1'' ''ReleaseDevice'' [DUInt32 226, DUInt32 0]]"
proof -
  let ?env = "open_card0 (Inl 9) None"
  let ?st = "\<lparr>st_is_chr = True, st_major = 226, st_minor = 0\<rparr>"
  let ?wl = "connected True False"
  let ?wl1 = "emit (Bus_call (spath ?wl) ''TakeDevice'' [DUInt32 226, DUInt32 0]) ?wl"
  have st: "oe_stat ?env = Inr ?st" and chr: "st_is_chr ?st"
    and local: "oe_getfl ?env = Inl 9 \<or> (\<exists>fl. oe_getfl ?env = Inr fl \<and> oe_setfl ?env = Some 9)"
    and mem: "alloc_ok (oe_release ?env)"
    by (simp_all add: open_card0_def alloc_ok_def no_oom_def)
  have take: "weston_logind_take_device (oe_take ?env) (st_major ?st) (st_minor ?st) ?wl =
                (7, Some False, ?wl1)"
    by (simp add: weston_logind_take_device_def open_card0_def no_oom_def take_reply_def)
  have fd: "(0::int) \<le> 7" by simp
  show ?thesis
    using open_releases_device_on_local_failure [OF st chr take fd local mem,
            of "''/dev/dri/card0''" 524290]
    by (simp add: open_card0_def connected_def emit_def)
qed

text \<open>Without that memory the descriptor is closed all the same, and nothing is sent.\<close>

lemma open_release_is_best_effort:
  assumes "oe_stat env = Inr st" and "st_is_chr st"
    and "weston_logind_take_device (oe_take env) (st_major st) (st_minor st) wl = (fd, paused, wl1)"
    and "0 \<le> fd"
    and "oe_getfl env = Inl e"
    and "\<not> alloc_ok (oe_release env)"
  shows "effects (snd (weston_logind_open env path flags wl)) =
           effects wl1 @ [Fcntl_getfl fd, Close fd]"
  using assms
  by (auto simp: weston_logind_open_def open_err_close_def weston_logind_release_device_def
        alloc_ok_def emit_def Let_def)

text \<open>
  C9 (as amended). A successful open makes one \<^verbatim>\<open>F_SETFL\<close> on the descriptor that
  \<^verbatim>\<open>TakeDevice\<close> returned. Its argument is the flags that \<^verbatim>\<open>F_GETFL\<close> read, with
  the non-blocking bit (bit 11) added when the caller's flags have it: every other bit is
  as the service provided it, and the non-blocking bit is set when the service or the
  caller set it. It is never cleared.
\<close>

theorem open_sets_nonblock_only:
  assumes "weston_logind_open env path flags wl = (fd, wl')" and "0 \<le> fd"
  shows "\<exists>st fl. oe_stat env = Inr st \<and> oe_getfl env = Inr fl
           \<and> effects wl' =
               effects wl @ [Bus_call (spath wl) ''TakeDevice''
                               [DUInt32 (st_major st), DUInt32 (st_minor st)],
                             Fcntl_getfl fd,
                             Fcntl_setfl fd (fl OR (flags AND O_NONBLOCK))]
           \<and> (\<forall>n. bit (fl OR (flags AND O_NONBLOCK)) n \<longleftrightarrow>
                    bit fl n \<or> (n = 11 \<and> bit flags 11))"
proof -
  from assms obtain st where st: "oe_stat env = Inr st" "st_is_chr st"
    by (auto simp: weston_logind_open_def split: sum.splits if_splits)
  obtain r paused wl1 where
    take: "weston_logind_take_device (oe_take env) (st_major st) (st_minor st) wl = (r, paused, wl1)"
    by (metis prod_cases3)
  from assms st take have r: "0 \<le> r"
    by (auto simp: weston_logind_open_def open_err_close_def Let_def
          split: if_splits sum.splits option.splits)
  have wl1: "wl1 = emit (Bus_call (spath wl) ''TakeDevice''
                           [DUInt32 (st_major st), DUInt32 (st_minor st)]) wl"
    using take_device_effects [OF take r] .
  from assms st take r obtain fl where fl: "oe_getfl env = Inr fl" "oe_setfl env = None"
    by (auto simp: weston_logind_open_def open_err_close_def Let_def
          split: if_splits sum.splits option.splits)
  from assms st take r fl have "fd = r"
    and "wl' = emit (Fcntl_setfl r (fl OR (flags AND O_NONBLOCK))) (emit (Fcntl_getfl r) wl1)"
    by (auto simp: weston_logind_open_def Let_def setfl_argument)
  then show ?thesis
    using st fl by (simp add: wl1 emit_def setfl_argument_bits)
qed

theorem open_sets_nonblock_only_witness:
  "effects (snd (weston_logind_open (open_card0 (Inr 2) None) ''/dev/input/event0'' 2050
                   (connected True False))) =
     [Bus_call ''/org/freedesktop/login1/session/c1'' ''TakeDevice'' [DUInt32 226, DUInt32 0],
      Fcntl_getfl 7, Fcntl_setfl 7 2050]"
proof -
  let ?r = "weston_logind_open (open_card0 (Inr 2) None) ''/dev/input/event0'' 2050
              (connected True False)"
  have r: "?r = (7, snd ?r)"
    by (simp add: weston_logind_open_def weston_logind_take_device_def open_card0_def
          take_reply_def no_oom_def Let_def)
  have fd: "(0::int) \<le> 7" by simp
  show ?thesis
    using open_sets_nonblock_only [OF r fd]
    by (auto simp: open_card0_def connected_def O_NONBLOCK_def)
qed

text \<open>
  C9 as it was stated fails: logind hands out a non-blocking descriptor (\<^verbatim>\<open>F_GETFL\<close>
  reads \<^verbatim>\<open>O_RDWR | O_NONBLOCK\<close>) and the caller asks for \<^verbatim>\<open>O_RDWR | O_CLOEXEC\<close>;
  the open succeeds and the descriptor stays non-blocking.
\<close>

theorem open_leaves_nonblock_set:
  "fst (weston_logind_open (open_card0 (Inr 2050) None) ''/dev/dri/card0'' 524290
          (connected True False)) = 7
   \<and> last (effects (snd (weston_logind_open (open_card0 (Inr 2050) None) ''/dev/dri/card0'' 524290
                           (connected True False)))) = Fcntl_setfl 7 2050
   \<and> (2050 AND O_NONBLOCK) \<noteq> 0
   \<and> (524290 AND O_NONBLOCK) = 0"
  by (simp add: weston_logind_open_def weston_logind_take_device_def open_card0_def
        take_reply_def no_oom_def connected_def emit_def O_NONBLOCK_def Let_def)

subsection \<open>Closing a device\<close>

text \<open>
  C10. When \<^verbatim>\<open>fstat\<close> on the descriptor fails, or the descriptor is no character
  special device, \<^verbatim>\<open>weston_logind_close\<close> adds one log line to the trace and nothing
  else: no message goes to the bus, whether libdbus has memory or not.
\<close>

theorem close_without_device_only_logs:
  assumes "ce_fstat env = Inl e \<or> (\<exists>st. ce_fstat env = Inr st \<and> \<not> st_is_chr st)"
  shows "effects (weston_logind_close env fd wl) =
           effects wl @ [Log (case ce_fstat env of
                                Inl _ \<Rightarrow> ''logind: cannot fstat fd: %m''
                              | Inr _ \<Rightarrow> ''logind: invalid device passed'')]"
  using assms
  by (auto simp: weston_logind_close_def weston_log_def emit_def)

theorem close_without_device_only_logs_witness:
  "effects (weston_logind_close \<lparr>ce_fstat = Inl 9, ce_release = no_oom\<rparr> 7 (connected True True))
     = [Log ''logind: cannot fstat fd: %m'']
   \<and> effects (weston_logind_close
                 \<lparr>ce_fstat = Inr \<lparr>st_is_chr = False, st_major = 8, st_minor = 0\<rparr>,
                  ce_release = no_oom\<rparr> 7 (connected True True))
     = [Log ''logind: invalid device passed'']"
  using close_without_device_only_logs
          [of "\<lparr>ce_fstat = Inl 9, ce_release = no_oom\<rparr>" 9 7 "connected True True"]
        close_without_device_only_logs
          [of "\<lparr>ce_fstat = Inr \<lparr>st_is_chr = False, st_major = 8, st_minor = 0\<rparr>,
                ce_release = no_oom\<rparr>" 0 7 "connected True True"]
  by (simp add: connected_def)

end
